theory Spec2Isabelle
  imports Main "HOL-Library.AList"
begin

section \<open>Values and exceptions\<close>

text \<open>
  The configuration file is a JSON document; \<^verbatim>\<open>json.load\<close> turns it into nested
  Python dicts, lists and scalars. A dict is kept as an association list in insertion
  order and is read with \<open>map_of\<close>; \<open>JNull\<close> is Python's \<^verbatim>\<open>None\<close>. The same type
  serves for every dynamically typed Python value the descriptors store in their
  attributes. JSON numbers are restricted to integers (no float occurs in the paths the
  code reads).
\<close>

datatype json =
    JNull
  | JBool bool
  | JNum int
  | JStr string
  | JArr "json list"
  | JObj "(string \<times> json) list"

text \<open>
  The exceptions the code can meet. \<open>UsageError\<close> is the
  \<^verbatim>\<open>Exception("Config solo se puede instanciar una vez")\<close> of \<^verbatim>\<open>Config.__init__\<close>;
  \<open>FileError\<close> stands for whatever \<^verbatim>\<open>open\<close> or \<^verbatim>\<open>json.load\<close> raise;
  \<open>ValueError\<close> is what \<^verbatim>\<open>pd.to_datetime\<close> raises on a value it cannot parse;
  \<open>NotFound\<close> is \<^verbatim>\<open>google.cloud.exceptions.NotFound\<close>; \<open>RemoteError\<close> is any other
  failure of the warehouse client.
\<close>

datatype error =
    KeyError string
  | TypeError
  | AttributeError string
  | UsageError
  | FileError string
  | ValueError string
  | NotFound
  | RemoteError string

text \<open>
  \<^verbatim>\<open>data[key]\<close> with a string key: a dict looks the key up and raises \<^verbatim>\<open>KeyError\<close>
  when it is absent; a list or a string refuses a string index and the scalars are not
  subscriptable (\<^verbatim>\<open>TypeError\<close> each time).
\<close>

fun getitem :: "json \<Rightarrow> string \<Rightarrow> error + json" where
  "getitem (JObj kvs) k = (case map_of kvs k of None \<Rightarrow> Inl (KeyError k) | Some v \<Rightarrow> Inr v)"
| "getitem _ k = Inl TypeError"

text \<open>
  \<^verbatim>\<open>for x in v\<close>: a list yields its elements, a dict its keys, a string its characters;
  the other values are not iterable.
\<close>

fun py_iter :: "json \<Rightarrow> error + json list" where
  "py_iter (JArr xs) = Inr xs"
| "py_iter (JObj kvs) = Inr (map (\<lambda>kv. JStr (fst kv)) kvs)"
| "py_iter (JStr s) = Inr (map (\<lambda>c. JStr [c]) s)"
| "py_iter _ = Inl TypeError"

section \<open>The configuration singleton (src/config/config.py)\<close>

text \<open>
  The environment of the module: the directory of \<^verbatim>\<open>config.py\<close>
  (\<^verbatim>\<open>os.path.dirname(__file__)\<close>) and the file system, seen through
  \<^verbatim>\<open>json.load(open(path))\<close>, which either raises or yields the parsed document.
\<close>

record env =
  module_dir :: string
  load_file :: "string \<Rightarrow> error + json"

text \<open>\<^verbatim>\<open>os.path.join(a, b)\<close> for two components, as \<^verbatim>\<open>posixpath\<close> computes it.\<close>

definition path_join :: "string \<Rightarrow> string \<Rightarrow> string" where
  "path_join a b =
     (if b \<noteq> [] \<and> hd b = CHR ''/'' then b
      else if a = [] \<or> last a = CHR ''/'' then a @ b
      else a @ ''/'' @ b)"

text \<open>
  A \<^verbatim>\<open>Config\<close> object. \<open>data\<close> and \<open>debug\<close> are optional because \<^verbatim>\<open>__init__\<close>
  assigns them only after the file has been read: an object whose construction failed
  has neither attribute.
\<close>

record config_obj =
  config_dir :: string
  config_json_filename :: string
  data :: "json option"
  debug :: "bool option"

text \<open>
  The state the module owns: the heap of \<^verbatim>\<open>Config\<close> objects allocated so far (an
  object's address is its index), the class attribute \<^verbatim>\<open>Config.__instance\<close> (an
  address, or \<open>None\<close>), and a log of the paths \<^verbatim>\<open>cfg_item\<close> has been called with. The
  log is an observation device only: no definition reads it.
\<close>

record cfg_world =
  heap :: "config_obj list"
  Config__instance :: "nat option"
  lookups :: "string list list"

definition deref :: "cfg_world \<Rightarrow> nat \<Rightarrow> config_obj option" where
  "deref w a = (if a < length (heap w) then Some (heap w ! a) else None)"

text \<open>
  \<^verbatim>\<open>Config(config_json_filename)\<close>: Python allocates the object, then runs
  \<^verbatim>\<open>__init__\<close> on it. The two private attributes are set first; if the slot is empty the
  object is installed \<^emph>\<open>before\<close> the file is opened, and \<open>data\<close> and \<open>debug\<close> are written
  into the installed object only when the load succeeded. With the slot taken the
  constructor raises; the fresh object stays on the heap as garbage.
\<close>

definition Config_init :: "env \<Rightarrow> string \<Rightarrow> cfg_world \<Rightarrow> (error + nat) \<times> cfg_world" where
  "Config_init E filename w =
     (let self = length (heap w);
          w1 = w\<lparr>heap := heap w @
                 [\<lparr>config_dir = module_dir E, config_json_filename = filename,
                   data = None, debug = None\<rparr>]\<rparr>
      in if Config__instance w1 = None then
           (let w2 = w1\<lparr>Config__instance := Some self\<rparr>;
                config_path = path_join (config_dir (heap w2 ! self))
                                        (config_json_filename (heap w2 ! self))
            in case load_file E config_path of
                 Inl e \<Rightarrow> (Inl e, w2)
               | Inr d \<Rightarrow>
                   (Inr self,
                    w2\<lparr>heap := (heap w2)[self := (heap w2 ! self)\<lparr>data := Some d,
                                                                 debug := Some False\<rparr>]\<rparr>))
         else (Inl UsageError, w1))"

text \<open>
  \<^verbatim>\<open>Config.instance()\<close>: constructs with the default file name when the slot is empty
  (an exception of the constructor propagates), then returns the slot.
\<close>

definition Config_instance :: "env \<Rightarrow> cfg_world \<Rightarrow> (error + nat option) \<times> cfg_world" where
  "Config_instance E w =
     (if Config__instance w = None then
        (case Config_init E ''config.json'' w of
           (Inl e, w') \<Rightarrow> (Inl e, w')
         | (Inr _, w') \<Rightarrow> (Inr (Config__instance w'), w'))
      else (Inr (Config__instance w), w))"

text \<open>The loop of \<^verbatim>\<open>cfg_item\<close>: \<^verbatim>\<open>for key in items: data = data[key]\<close>.\<close>

fun walk :: "json \<Rightarrow> string list \<Rightarrow> error + json" where
  "walk d [] = Inr d"
| "walk d (key # items) = (case getitem d key of Inl e \<Rightarrow> Inl e | Inr v \<Rightarrow> walk v items)"

text \<open>
  \<^verbatim>\<open>cfg_item(*items)\<close>: reads \<^verbatim>\<open>Config.instance().data\<close> (an \<^verbatim>\<open>AttributeError\<close> when the
  installed object never got its \<open>data\<close>) and walks the path.
\<close>

definition cfg_item :: "env \<Rightarrow> string list \<Rightarrow> cfg_world \<Rightarrow> (error + json) \<times> cfg_world" where
  "cfg_item E items w0 =
     (let w = w0\<lparr>lookups := lookups w0 @ [items]\<rparr>
      in case Config_instance E w of
           (Inl e, w') \<Rightarrow> (Inl e, w')
         | (Inr None, w') \<Rightarrow> (Inl (AttributeError ''data''), w')
         | (Inr (Some a), w') \<Rightarrow>
             (case deref w' a of
                None \<Rightarrow> (Inl (AttributeError ''data''), w')
              | Some c \<Rightarrow>
                  (case data c of
                     None \<Rightarrow> (Inl (AttributeError ''data''), w')
                   | Some d \<Rightarrow> (walk d items, w'))))"

text \<open>Repeated construction attempts, each with its own file name, after a given state.\<close>

fun construct_all :: "env \<Rightarrow> string list \<Rightarrow> cfg_world \<Rightarrow> (error + nat) list \<times> cfg_world" where
  "construct_all E [] w = ([], w)"
| "construct_all E (f # fs) w =
     (case Config_init E f w of
        (r, w') \<Rightarrow> (case construct_all E fs w' of (rs, w'') \<Rightarrow> (r # rs, w'')))"

section \<open>The table descriptor with overrides (src/bigquery/table.py)\<close>

text \<open>
  A descriptor is a Python object whose attributes are created dynamically
  (\<^verbatim>\<open>attr_columns\<close> calls \<^verbatim>\<open>setattr\<close> with names taken from the schema), so it is
  modelled by its instance dictionary. Reading an attribute the dictionary lacks (and
  the class does not define) raises \<^verbatim>\<open>AttributeError\<close>; \<^verbatim>\<open>setattr\<close> overwrites or adds.
  The attributes Python keeps on every object by itself (\<^verbatim>\<open>__class__\<close>, \<^verbatim>\<open>__dict__\<close>)
  are not part of the dictionary: a schema with a column of such a name is outside
  the model.
\<close>

type_synonym pyobj = "(string \<times> json) list"

definition getattr :: "pyobj \<Rightarrow> string \<Rightarrow> error + json" where
  "getattr self n = (case map_of self n of None \<Rightarrow> Inl (AttributeError n) | Some v \<Rightarrow> Inr v)"

definition setattr :: "pyobj \<Rightarrow> string \<Rightarrow> json \<Rightarrow> pyobj" where
  "setattr self n v = AList.update n v self"

text \<open>
  Methods live in the class, but an entry of the instance dictionary with the same name
  wins the lookup: after \<^verbatim>\<open>setattr(self, 'get_table_id', 'get_table_id')\<close> the call
  \<^verbatim>\<open>self.get_table_id()\<close> applies a string and raises \<^verbatim>\<open>TypeError\<close>.
\<close>

definition method_shadowed :: "pyobj \<Rightarrow> string \<Rightarrow> bool" where
  "method_shadowed self m = (map_of self m \<noteq> None)"

text \<open>
  The common shape of the four accessors,
  \<^verbatim>\<open>if self.a is None: self.a = cfg_item(path); return self.a\<close>.
  The path may need \<^verbatim>\<open>self.table_name\<close>, which is read before \<^verbatim>\<open>cfg_item\<close> is called.
\<close>

definition cached_accessor ::
  "env \<Rightarrow> string \<Rightarrow> string \<Rightarrow> (pyobj \<Rightarrow> error + string list) \<Rightarrow> cfg_world \<times> pyobj \<Rightarrow>
     (error + json) \<times> cfg_world \<times> pyobj" where
  "cached_accessor E meth a path st =
     (case st of (w, self) \<Rightarrow>
        if method_shadowed self meth then (Inl TypeError, w, self)
        else (case getattr self a of
                Inl e \<Rightarrow> (Inl e, w, self)
              | Inr v \<Rightarrow>
                  (if v = JNull then
                     (case path self of
                        Inl e \<Rightarrow> (Inl e, w, self)
                      | Inr items \<Rightarrow>
                          (case cfg_item E items w of
                             (Inl e, w') \<Rightarrow> (Inl e, w', self)
                           | (Inr x, w') \<Rightarrow>
                               (getattr (setattr self a x) a, w', setattr self a x)))
                   else (Inr v, w, self))))"

text \<open>
  The path \<^verbatim>\<open>('data', 'tables', self.table_name, field)\<close>. The constructor stores a
  string under \<open>table_name\<close> and \<^verbatim>\<open>setattr\<close> only ever stores strings, so the branch for
  another kind of value is never taken; it is given the \<^verbatim>\<open>TypeError\<close> of an unhashable key.
\<close>

definition table_path :: "string \<Rightarrow> pyobj \<Rightarrow> error + string list" where
  "table_path field self =
     (case getattr self ''table_name'' of
        Inl e \<Rightarrow> Inl e
      | Inr (JStr n) \<Rightarrow> Inr [''data'', ''tables'', n, field]
      | Inr _ \<Rightarrow> Inl TypeError)"

definition get_table_id :: "env \<Rightarrow> cfg_world \<times> pyobj \<Rightarrow> (error + json) \<times> cfg_world \<times> pyobj" where
  "get_table_id E st = cached_accessor E ''get_table_id'' ''table_id'' (table_path ''table_id'') st"

definition get_dataset_id :: "env \<Rightarrow> cfg_world \<times> pyobj \<Rightarrow> (error + json) \<times> cfg_world \<times> pyobj" where
  "get_dataset_id E st =
     cached_accessor E ''get_dataset_id'' ''dataset_id'' (\<lambda>self. Inr [''data'', ''dataset_id'']) st"

definition get_table_schema :: "env \<Rightarrow> cfg_world \<times> pyobj \<Rightarrow> (error + json) \<times> cfg_world \<times> pyobj" where
  "get_table_schema E st = cached_accessor E ''get_table_schema'' ''schema'' (table_path ''schema'') st"


text \<open>
  The loop of \<^verbatim>\<open>attr_columns\<close>:
  \<^verbatim>\<open>for column in schema: column_name = column['name']; setattr(self, column_name, column_name)\<close>.
  \<^verbatim>\<open>setattr\<close> demands a string as the attribute's name. An exception leaves the
  attributes set so far in place.
\<close>

fun attr_loop :: "pyobj \<Rightarrow> json list \<Rightarrow> (error + unit) \<times> pyobj" where
  "attr_loop self [] = (Inr (), self)"
| "attr_loop self (column # rest) =
     (case getitem column ''name'' of
        Inl e \<Rightarrow> (Inl e, self)
      | Inr (JStr column_name) \<Rightarrow> attr_loop (setattr self column_name (JStr column_name)) rest
      | Inr _ \<Rightarrow> (Inl TypeError, self))"

definition attr_columns :: "env \<Rightarrow> cfg_world \<times> pyobj \<Rightarrow> (error + unit) \<times> cfg_world \<times> pyobj" where
  "attr_columns E st =
     (if method_shadowed (snd st) ''attr_columns'' then (Inl TypeError, st)
      else (case get_table_schema E st of
              (Inl e, st') \<Rightarrow> (Inl e, st')
            | (Inr schema, w', self') \<Rightarrow>
                (case py_iter schema of
                   Inl e \<Rightarrow> (Inl e, w', self')
                 | Inr columns \<Rightarrow>
                     (case attr_loop self' columns of (r, self'') \<Rightarrow> (r, w', self'')))))"

text \<open>
  \<^verbatim>\<open>Table(table_name, table_id=None, schema=None, location=None)\<close>: the four attributes
  are stored, then \<^verbatim>\<open>attr_columns\<close> runs. \<open>dataset_id\<close> is not among the attributes
  the constructor stores. When the constructor raises, the caller gets no object.
\<close>

definition Table_init ::
  "env \<Rightarrow> string \<Rightarrow> json \<Rightarrow> json \<Rightarrow> json \<Rightarrow> cfg_world \<Rightarrow> (error + pyobj) \<times> cfg_world" where
  "Table_init E table_name table_id schema location w =
     (case attr_columns E
             (w, [(''table_name'', JStr table_name), (''table_id'', table_id),
                  (''schema'', schema), (''location'', location)]) of
        (Inl e, w', self) \<Rightarrow> (Inl e, w')
      | (Inr _, w', self) \<Rightarrow> (Inr self, w'))"



text \<open>
  \<^verbatim>\<open>transform_date_time(df, date_columns)\<close>, the same in both descriptor classes; the
  body does not use \<^verbatim>\<open>self\<close>. A
  DataFrame is its columns in order, each a name and a column of type \<open>'c\<close>;
  \<^verbatim>\<open>pd.to_datetime\<close> belongs to pandas and is the parameter \<open>to_datetime\<close>, which raises
  or yields the converted column. \<^verbatim>\<open>df[column]\<close> raises \<^verbatim>\<open>KeyError\<close> for a missing
  column; the assignment replaces the column where it stands. The frame is mutated in
  place: the result is the exception raised, if any, and the frame as the call leaves
  it (which is also the value returned when nothing is raised).
\<close>

fun transform_date_time ::
  "('c \<Rightarrow> error + 'c) \<Rightarrow> (string \<times> 'c) list \<Rightarrow> string list \<Rightarrow> error option \<times> (string \<times> 'c) list" where
  "transform_date_time to_datetime df [] = (None, df)"
| "transform_date_time to_datetime df (column # rest) =
     (case map_of df column of
        None \<Rightarrow> (Some (KeyError column), df)
      | Some series \<Rightarrow>
          (case to_datetime series of
             Inl e \<Rightarrow> (Some e, df)
           | Inr converted \<Rightarrow>
               transform_date_time to_datetime (AList.update column converted df) rest))"

section \<open>The configuration-only table descriptor (src/table.py)\<close>

text \<open>
  The second \<^verbatim>\<open>Table\<close> class keeps no field but \<open>table_name\<close> (and the column
  attributes): each accessor is \<^verbatim>\<open>return cfg_item(path)\<close>. Its definitions carry the
  suffix \<open>_cfg\<close>.
\<close>

definition cfg_accessor ::
  "env \<Rightarrow> string \<Rightarrow> (pyobj \<Rightarrow> error + string list) \<Rightarrow> cfg_world \<times> pyobj \<Rightarrow>
     (error + json) \<times> cfg_world \<times> pyobj" where
  "cfg_accessor E meth path st =
     (case st of (w, self) \<Rightarrow>
        if method_shadowed self meth then (Inl TypeError, w, self)
        else (case path self of
                Inl e \<Rightarrow> (Inl e, w, self)
              | Inr items \<Rightarrow> (case cfg_item E items w of (r, w') \<Rightarrow> (r, w', self))))"

definition get_table_id_cfg :: "env \<Rightarrow> cfg_world \<times> pyobj \<Rightarrow> (error + json) \<times> cfg_world \<times> pyobj" where
  "get_table_id_cfg E st = cfg_accessor E ''get_table_id'' (table_path ''table_id'') st"

definition get_dataset_id_cfg :: "env \<Rightarrow> cfg_world \<times> pyobj \<Rightarrow> (error + json) \<times> cfg_world \<times> pyobj" where
  "get_dataset_id_cfg E st =
     cfg_accessor E ''get_dataset_id'' (\<lambda>self. Inr [''data'', ''dataset_id'']) st"

definition get_table_schema_cfg :: "env \<Rightarrow> cfg_world \<times> pyobj \<Rightarrow> (error + json) \<times> cfg_world \<times> pyobj" where
  "get_table_schema_cfg E st = cfg_accessor E ''get_table_schema'' (table_path ''schema'') st"

definition get_data_cfg :: "env \<Rightarrow> cfg_world \<times> pyobj \<Rightarrow> (error + json) \<times> cfg_world \<times> pyobj" where
  "get_data_cfg E st = cfg_accessor E ''get_data'' (table_path ''data'') st"


definition attr_columns_cfg :: "env \<Rightarrow> cfg_world \<times> pyobj \<Rightarrow> (error + unit) \<times> cfg_world \<times> pyobj" where
  "attr_columns_cfg E st =
     (if method_shadowed (snd st) ''attr_columns'' then (Inl TypeError, st)
      else (case get_table_schema_cfg E st of
              (Inl e, st') \<Rightarrow> (Inl e, st')
            | (Inr schema, w', self') \<Rightarrow>
                (case py_iter schema of
                   Inl e \<Rightarrow> (Inl e, w', self')
                 | Inr columns \<Rightarrow>
                     (case attr_loop self' columns of (r, self'') \<Rightarrow> (r, w', self'')))))"

definition Table_init_cfg :: "env \<Rightarrow> string \<Rightarrow> cfg_world \<Rightarrow> (error + pyobj) \<times> cfg_world" where
  "Table_init_cfg E table_name w =
     (case attr_columns_cfg E (w, [(''table_name'', JStr table_name)]) of
        (Inl e, w', self) \<Rightarrow> (Inl e, w')
      | (Inr _, w', self) \<Rightarrow> (Inr self, w'))"


section \<open>The warehouse client wrapper (src/bigquery.py)\<close>

text \<open>
  The value classes of the vendor library are records: the wrapper only builds them
  and hands them on. \<open>WRITE_TRUNCATE\<close> is the member of the vendor's enumeration that
  the wrapper never uses. \<^verbatim>\<open>LoadJobConfig\<close> is built from a schema, a sequence of field
  descriptors as the configuration holds them, which its constructor accepts; what it
  does with a value that is no schema is outside the model.
\<close>

datatype write_disposition = WRITE_APPEND | WRITE_EMPTY | WRITE_TRUNCATE

record load_job_config =
  lj_schema :: json
  lj_write_disposition :: write_disposition

record bq_dataset =
  dataset_ref :: json
  ds_location :: "string option"

record bq_table =
  table_ref :: json
  table_schema :: json

text \<open>
  The constructors \<^verbatim>\<open>bigquery.Dataset(dataset_id)\<close> and
  \<^verbatim>\<open>bigquery.Table(table_id, schema=schema)\<close> run locally and validate their arguments:
  they raise (a \<^verbatim>\<open>ValueError\<close> for an identifier that is not fully qualified, for one)
  or build the object. The validation is the vendor's code, not the repository's, so it
  is a parameter: for each constructor, the exception it raises on the given
  arguments, if any.
\<close>

record vendor =
  Dataset_raises :: "json \<Rightarrow> error option"
  Table_raises :: "json \<Rightarrow> json \<Rightarrow> error option"

text \<open>
  Every method of \<^verbatim>\<open>self.client\<close> that the wrapper calls goes to the remote service.
  The session is the list of the calls made so far; the service is a parameter that
  answers a call, given the calls before it, with an exception or with a handle of
  the object the client returns (\<open>'d\<close> is the type of a DataFrame). \<open>stdout\<close> holds the
  lines printed.
\<close>

datatype 'd call =
    GetTable json
  | GetDataset json
  | CreateDataset bq_dataset
  | LoadTableFromDataframe 'd json load_job_config
  | JobResult nat

record 'd session =
  calls :: "'d call list"
  stdout :: "string list"

type_synonym 'd remote = "'d call list \<Rightarrow> 'd call \<Rightarrow> error + nat"

definition client_call :: "'d remote \<Rightarrow> 'd call \<Rightarrow> 'd session \<Rightarrow> (error + nat) \<times> 'd session" where
  "client_call R c s = (R (calls s) c, s\<lparr>calls := calls s @ [c]\<rparr>)"

definition print :: "string \<Rightarrow> 'd session \<Rightarrow> 'd session" where
  "print line s = s\<lparr>stdout := stdout s @ [line]\<rparr>"

text \<open>
  \<^verbatim>\<open>create_table\<close>: one statement, \<^verbatim>\<open>table = bigquery.Table(table_id, schema=schema)\<close>.
  An exception of the constructor propagates; otherwise the object is bound to a local
  name and the method returns \<^verbatim>\<open>None\<close>.
\<close>

definition create_table ::
  "vendor \<Rightarrow> json \<Rightarrow> json \<Rightarrow> 'd session \<Rightarrow> (error + unit) \<times> 'd session" where
  "create_table V table_id schema s =
     (case Table_raises V table_id schema of
        Some e \<Rightarrow> (Inl e, s)
      | None \<Rightarrow>
          (let table = \<lparr>table_ref = table_id, table_schema = schema\<rparr> in (Inr (), s)))"

definition check_table_exists :: "'d remote \<Rightarrow> json \<Rightarrow> 'd session \<Rightarrow> (error + bool) \<times> 'd session" where
  "check_table_exists R table_id s =
     (case client_call R (GetTable table_id) s of
        (Inr _, s') \<Rightarrow> (Inr True, s')
      | (Inl e, s') \<Rightarrow> (if e = NotFound then (Inr False, s') else (Inl e, s')))"

definition job_config ::
  "'d remote \<Rightarrow> json \<Rightarrow> json \<Rightarrow> 'd session \<Rightarrow> (error + load_job_config) \<times> 'd session" where
  "job_config R schema table_id s =
     (case check_table_exists R table_id s of
        (Inl e, s') \<Rightarrow> (Inl e, s')
      | (Inr exists, s') \<Rightarrow>
          (if exists then
             (Inr \<lparr>lj_schema = schema, lj_write_disposition = WRITE_APPEND\<rparr>,
              print ''La tabla ya existe'' s')
           else
             (Inr \<lparr>lj_schema = schema, lj_write_disposition = WRITE_EMPTY\<rparr>,
              print ''La tabla no existe'' s')))"

text \<open>
  The descriptor handed to \<^verbatim>\<open>load_data_to_bigquery\<close> may be of either class; a method
  call dispatches on the class of the object.
\<close>

datatype table_class = ConfigOnly | WithOverrides

record descriptor =
  cls :: table_class
  attrs :: pyobj

definition dispatch ::
  "(cfg_world \<times> pyobj \<Rightarrow> (error + 'a) \<times> cfg_world \<times> pyobj) \<Rightarrow>
   (cfg_world \<times> pyobj \<Rightarrow> (error + 'a) \<times> cfg_world \<times> pyobj) \<Rightarrow>
   cfg_world \<times> descriptor \<Rightarrow> (error + 'a) \<times> cfg_world \<times> descriptor" where
  "dispatch m_cfg m_ovr st =
     (case st of (w, t) \<Rightarrow>
        (case (case cls t of ConfigOnly \<Rightarrow> m_cfg (w, attrs t) | WithOverrides \<Rightarrow> m_ovr (w, attrs t)) of
           (r, w', self') \<Rightarrow> (r, w', t\<lparr>attrs := self'\<rparr>)))"

text \<open>
  The \<^verbatim>\<open>try\<close> block of \<^verbatim>\<open>load_data_to_bigquery\<close>: \<^verbatim>\<open>get_dataset\<close>, and on \<^verbatim>\<open>NotFound\<close>
  the constructor \<^verbatim>\<open>bigquery.Dataset(dataset_id)\<close>, the assignment of \<^verbatim>\<open>"US"\<close> to the
  \<open>location\<close> of the new object, and \<^verbatim>\<open>create_dataset\<close>. Every other exception, also
  one of the constructor or of \<^verbatim>\<open>create_dataset\<close>, leaves the block.
\<close>

definition ensure_dataset ::
  "vendor \<Rightarrow> 'd remote \<Rightarrow> json \<Rightarrow> 'd session \<Rightarrow> (error + unit) \<times> 'd session" where
  "ensure_dataset V R dataset_id s =
     (case client_call R (GetDataset dataset_id) s of
        (Inr _, s1) \<Rightarrow> (Inr (), s1)
      | (Inl e, s1) \<Rightarrow>
          (if e = NotFound then
             (case Dataset_raises V dataset_id of
                Some e' \<Rightarrow> (Inl e', s1)
              | None \<Rightarrow>
                  (let dataset = \<lparr>dataset_ref = dataset_id, ds_location = None\<rparr>;
                       dataset = dataset\<lparr>ds_location := Some ''US''\<rparr>
                   in case client_call R (CreateDataset dataset) s1 of
                        (Inl e', s2) \<Rightarrow> (Inl e', s2)
                      | (Inr _, s2) \<Rightarrow> (Inr (), s2)))
           else (Inl e, s1)))"

definition load_data_to_bigquery ::
  "env \<Rightarrow> vendor \<Rightarrow> 'd remote \<Rightarrow> 'd \<Rightarrow> cfg_world \<times> descriptor \<times> 'd session \<Rightarrow>
     (error + unit) \<times> cfg_world \<times> descriptor \<times> 'd session" where
  "load_data_to_bigquery E V R df st =
     (case st of (w, t, s) \<Rightarrow>
      (case dispatch (get_dataset_id_cfg E) (get_dataset_id E) (w, t) of
        (Inl e, w1, t1) \<Rightarrow> (Inl e, w1, t1, s)
      | (Inr dataset_id, w1, t1) \<Rightarrow>
      (case dispatch (get_table_id_cfg E) (get_table_id E) (w1, t1) of
        (Inl e, w2, t2) \<Rightarrow> (Inl e, w2, t2, s)
      | (Inr table_id, w2, t2) \<Rightarrow>
      (case ensure_dataset V R dataset_id s of
        (Inl e, s2) \<Rightarrow> (Inl e, w2, t2, s2)
      | (Inr _, s2) \<Rightarrow>
      (case dispatch (get_table_schema_cfg E) (get_table_schema E) (w2, t2) of
        (Inl e, w3, t3) \<Rightarrow> (Inl e, w3, t3, s2)
      | (Inr schema, w3, t3) \<Rightarrow>
      (case job_config R schema table_id s2 of
        (Inl e, s3) \<Rightarrow> (Inl e, w3, t3, s3)
      | (Inr config, s3) \<Rightarrow>
      (case client_call R (LoadTableFromDataframe df table_id config) s3 of
        (Inl e, s4) \<Rightarrow> (Inl e, w3, t3, s4)
      | (Inr load_job, s4) \<Rightarrow>
      (case client_call R (JobResult load_job) s4 of
        (Inl e, s5) \<Rightarrow> (Inl e, w3, t3, s5)
      | (Inr _, s5) \<Rightarrow> (Inr (), w3, t3, s5)))))))))"

section \<open>The specification's view of the date columns\<close>





section \<open>A concrete scenario\<close>

text \<open>
  A configuration document with one table, \<open>events\<close>, whose schema has a \<open>DATE\<close>
  column and a \<open>FLOAT\<close> column; an environment whose file system holds it under the
  default name; an environment whose file system holds nothing; and the state of a
  process that has not touched the configuration yet.
\<close>

definition events_columns :: "json list" where
  "events_columns =
     [JObj [(''name'', JStr ''ts''), (''type'', JStr ''DATE''), (''mode'', JStr ''NULLABLE'')],
      JObj [(''name'', JStr ''val''), (''type'', JStr ''FLOAT''), (''mode'', JStr ''NULLABLE'')]]"

definition events_schema :: json where
  "events_schema = JArr events_columns"

definition events_config :: json where
  "events_config =
     JObj [(''data'',
            JObj [(''dataset_id'', JStr ''ds1''),
                  (''location'', JStr ''EU''),
                  (''tables'',
                   JObj [(''events'',
                          JObj [(''table_id'', JStr ''proj.ds1.events''),
                                (''schema'', events_schema)])])])]"

definition events_env :: env where
  "events_env =
     \<lparr>module_dir = ''/app/src/config'',
      load_file = (\<lambda>p. if p = ''/app/src/config/config.json'' then Inr events_config
                       else Inl (FileError p))\<rparr>"

definition empty_env :: env where
  "empty_env = \<lparr>module_dir = ''/app/src/config'', load_file = (\<lambda>p. Inl (FileError p))\<rparr>"

definition fresh_world :: cfg_world where
  "fresh_world = \<lparr>heap = [], Config__instance = None, lookups = []\<rparr>"

text \<open>
  The state once the document has been loaded, and the descriptors of \<open>events\<close> as
  the two constructors leave them when no override is given.
\<close>

definition loaded_world :: cfg_world where
  "loaded_world =
     \<lparr>heap = [\<lparr>config_dir = ''/app/src/config'', config_json_filename = ''config.json'',
               data = Some events_config, debug = Some False\<rparr>],
      Config__instance = Some 0, lookups = []\<rparr>"

definition events_obj :: pyobj where
  "events_obj =
     [(''table_name'', JStr ''events''), (''table_id'', JNull), (''schema'', events_schema),
      (''location'', JNull), (''ts'', JStr ''ts''), (''val'', JStr ''val'')]"

definition events_table_cfg :: descriptor where
  "events_table_cfg =
     \<lparr>cls = ConfigOnly,
      attrs = [(''table_name'', JStr ''events''), (''ts'', JStr ''ts''), (''val'', JStr ''val'')]\<rparr>"

text \<open>
  A service that holds no dataset and no table and accepts everything else, and a
  session in which nothing has been called.
\<close>

definition empty_service :: "'d remote" where
  "empty_service h c =
     (case c of
        GetTable x \<Rightarrow> Inl NotFound
      | GetDataset x \<Rightarrow> Inl NotFound
      | CreateDataset x \<Rightarrow> Inr 0
      | LoadTableFromDataframe x y z \<Rightarrow> Inr 1
      | JobResult x \<Rightarrow> Inr 2)"

definition no_calls :: "unit session" where
  "no_calls = \<lparr>calls = [], stdout = []\<rparr>"

text \<open>
  A stand-in for the vendor's constructors that keeps their rule for identifiers given
  as strings: a dataset id has two parts separated by a dot (project and dataset), a
  table id three; any other string is refused with \<^verbatim>\<open>ValueError\<close>. The stand-in refuses
  every value that is not a string and does not look at the schema.
\<close>

definition id_parts :: "string \<Rightarrow> nat" where
  "id_parts s = Suc (length (filter (\<lambda>c. c = CHR ''.'') s))"

definition strict_vendor :: vendor where
  "strict_vendor =
     \<lparr>Dataset_raises =
        (\<lambda>x. case x of
               JStr s \<Rightarrow> (if id_parts s = 2 then None else Some (ValueError s))
             | _ \<Rightarrow> Some TypeError),
      Table_raises =
        (\<lambda>x schema. case x of
               JStr s \<Rightarrow> (if id_parts s = 3 then None else Some (ValueError s))
             | _ \<Rightarrow> Some TypeError)\<rparr>"


text \<open>
  A stand-in for \<^verbatim>\<open>pd.to_datetime\<close> on columns of cells: a timestamp stays as it is, a
  text is parsed (two dates are known) or refused.
\<close>

datatype cell = Text string | Timestamp int

fun toy_to_datetime :: "cell list \<Rightarrow> error + cell list" where
  "toy_to_datetime [] = Inr []"
| "toy_to_datetime (Timestamp t # rest) =
     (case toy_to_datetime rest of Inl e \<Rightarrow> Inl e | Inr ys \<Rightarrow> Inr (Timestamp t # ys))"
| "toy_to_datetime (Text s # rest) =
     (if s = ''1970-01-01'' then
        (case toy_to_datetime rest of Inl e \<Rightarrow> Inl e | Inr ys \<Rightarrow> Inr (Timestamp 0 # ys))
      else if s = ''1970-01-02'' then
        (case toy_to_datetime rest of Inl e \<Rightarrow> Inl e | Inr ys \<Rightarrow> Inr (Timestamp 86400 # ys))
      else Inl (ValueError s))"

definition toy_frame :: "(string \<times> cell list) list" where
  "toy_frame =
     [(''A'', [Text ''1970-01-02'', Text ''1970-01-01'']),
      (''B'', [Text ''x'', Text ''y''])]"

section \<open>Properties of the configuration singleton\<close>

lemma Config_init_taken:
  "Config__instance w = Some a \<Longrightarrow>
     Config_init E f w =
       (Inl UsageError,
        w\<lparr>heap := heap w @ [\<lparr>config_dir = module_dir E, config_json_filename = f,
                              data = None, debug = None\<rparr>]\<rparr>)"
  by (simp add: Config_init_def Let_def)

lemma Config_init_empty_fail:
  "Config__instance w = None \<Longrightarrow> load_file E (path_join (module_dir E) f) = Inl e \<Longrightarrow>
     Config_init E f w =
       (Inl e,
        w\<lparr>heap := heap w @ [\<lparr>config_dir = module_dir E, config_json_filename = f,
                              data = None, debug = None\<rparr>],
          Config__instance := Some (length (heap w))\<rparr>)"
  by (simp add: Config_init_def Let_def)

lemma Config_init_empty_ok:
  "Config__instance w = None \<Longrightarrow> load_file E (path_join (module_dir E) f) = Inr d \<Longrightarrow>
     Config_init E f w =
       (Inr (length (heap w)),
        w\<lparr>heap := heap w @ [\<lparr>config_dir = module_dir E, config_json_filename = f,
                              data = Some d, debug = Some False\<rparr>],
          Config__instance := Some (length (heap w))\<rparr>)"
  by (simp add: Config_init_def Let_def)

lemma construct_all_taken:
  "Config__instance w = Some a \<Longrightarrow> a < length (heap w) \<Longrightarrow>
     construct_all E fs w = (rs, w') \<Longrightarrow>
     rs = replicate (length fs) (Inl UsageError) \<and> Config__instance w' = Some a \<and>
     heap w' ! a = heap w ! a \<and> lookups w' = lookups w \<and> length (heap w) \<le> length (heap w')"
proof (induction fs arbitrary: w rs w')
  case Nil
  then show ?case by simp
next
  case (Cons f fs)
  let ?w1 = "w\<lparr>heap := heap w @ [\<lparr>config_dir = module_dir E, config_json_filename = f,
                              data = None, debug = None\<rparr>]\<rparr>"
  from Cons.prems(1) have step: "Config_init E f w = (Inl UsageError, ?w1)"
    by (rule Config_init_taken)
  obtain rs1 where rs1: "construct_all E fs ?w1 = (rs1, w')" and rs: "rs = Inl UsageError # rs1"
    using Cons.prems(3) step by (auto split: prod.splits)
  have "rs1 = replicate (length fs) (Inl UsageError) \<and> Config__instance w' = Some a \<and>
     heap w' ! a = heap ?w1 ! a \<and> lookups w' = lookups ?w1 \<and> length (heap ?w1) \<le> length (heap w')"
    using Cons.prems(1,2) by (intro Cons.IH[OF _ _ rs1]) auto
  then show ?case using rs Cons.prems(2) by (simp add: nth_append)
qed

text \<open>
  Claim C5. The first construction (the slot is empty) installs the new object in the
  slot and, when the backing file loads, returns it with the document as its \<open>data\<close>;
  every later construction attempt, whatever file name it is given, raises the usage
  error, and neither the slot nor the installed object changes.
\<close>

theorem Config_constructed_once:
  assumes "Config__instance w = None"
      and "Config_init E f w = (r, wa)"
      and "construct_all E fs wa = (rs, wb)"
  shows "Config__instance wa = Some (length (heap w)) \<and>
         (\<forall>d. load_file E (path_join (module_dir E) f) = Inr d \<longrightarrow>
               r = Inr (length (heap w)) \<and>
               deref wa (length (heap w)) =
                 Some \<lparr>config_dir = module_dir E, config_json_filename = f,
                       data = Some d, debug = Some False\<rparr>) \<and>
         rs = replicate (length fs) (Inl UsageError) \<and>
         Config__instance wb = Config__instance wa \<and>
         deref wb (length (heap w)) = deref wa (length (heap w))"
proof -
  let ?a = "length (heap w)"
  have inst: "Config__instance wa = Some ?a" and len: "?a < length (heap wa)"
    using assms(1,2) by (auto simp: Config_init_def Let_def split: sum.splits)
  have ok: "\<forall>d. load_file E (path_join (module_dir E) f) = Inr d \<longrightarrow>
               r = Inr ?a \<and>
               deref wa ?a =
                 Some \<lparr>config_dir = module_dir E, config_json_filename = f,
                       data = Some d, debug = Some False\<rparr>"
    using assms(1,2) by (auto simp: Config_init_empty_ok deref_def)
  have later: "rs = replicate (length fs) (Inl UsageError) \<and> Config__instance wb = Some ?a \<and>
     heap wb ! ?a = heap wa ! ?a \<and> lookups wb = lookups wa \<and> length (heap wa) \<le> length (heap wb)"
    using construct_all_taken[OF inst len assms(3)] .
  then have len2: "?a < length (heap wb)" using len by simp
  show ?thesis using inst ok later len len2 by (simp add: deref_def)
qed

theorem Config_constructed_once_witness:
  "Config__instance fresh_world = None \<and>
   fst (Config_init events_env ''config.json'' fresh_world) = Inr 0 \<and>
   fst (construct_all events_env [''config.json'', ''other.json'']
          (snd (Config_init events_env ''config.json'' fresh_world))) =
     [Inl UsageError, Inl UsageError] \<and>
   Config__instance (snd (construct_all events_env [''config.json'', ''other.json'']
          (snd (Config_init events_env ''config.json'' fresh_world)))) = Some 0 \<and>
   deref (snd (construct_all events_env [''config.json'', ''other.json'']
          (snd (Config_init events_env ''config.json'' fresh_world)))) 0 =
     Some \<lparr>config_dir = ''/app/src/config'', config_json_filename = ''config.json'',
           data = Some events_config, debug = Some False\<rparr>"
proof -
  have h1: "Config__instance fresh_world = None" by (simp add: fresh_world_def)
  have ld: "load_file events_env (path_join (module_dir events_env) ''config.json'') = Inr events_config"
    by (simp add: events_env_def path_join_def)
  show ?thesis
    using h1 ld Config_constructed_once [where w = fresh_world and E = events_env and f = "''config.json''"
        and fs = "[''config.json'', ''other.json'']", OF h1 surjective_pairing surjective_pairing]
    by (simp add: fresh_world_def events_env_def)
qed

text \<open>
  Claim C10. The slot is assigned before the file is read: when the first construction
  fails on the file, the exception propagates but the slot keeps the new object, which
  has no \<open>data\<close>. From then on every construction attempt raises the usage error (in
  any environment, also one whose file has become readable), \<^verbatim>\<open>Config.instance()\<close>
  returns the broken object without constructing again, and every \<^verbatim>\<open>cfg_item\<close> call
  fails on the missing attribute.
\<close>

theorem Config_failed_load_sticks:
  assumes "Config__instance w = None"
      and "load_file E (path_join (module_dir E) f) = Inl e"
      and "Config_init E f w = (r, wa)"
  shows "r = Inl e \<and>
         Config__instance wa = Some (length (heap w)) \<and>
         deref wa (length (heap w)) =
           Some \<lparr>config_dir = module_dir E, config_json_filename = f,
                 data = None, debug = None\<rparr> \<and>
         (\<forall>E' f. fst (Config_init E' f wa) = Inl UsageError \<and>
                 Config__instance (snd (Config_init E' f wa)) = Some (length (heap w)) \<and>
                 deref (snd (Config_init E' f wa)) (length (heap w)) = deref wa (length (heap w))) \<and>
         (\<forall>E'. Config_instance E' wa = (Inr (Some (length (heap w))), wa)) \<and>
         (\<forall>E' items. cfg_item E' items wa =
                 (Inl (AttributeError ''data''), wa\<lparr>lookups := lookups wa @ [items]\<rparr>))"
proof -
  let ?a = "length (heap w)"
  have wa_eq: "wa = w\<lparr>heap := heap w @ [\<lparr>config_dir = module_dir E, config_json_filename = f,
                              data = None, debug = None\<rparr>],
          Config__instance := Some ?a\<rparr>" and r_eq: "r = Inl e"
    using Config_init_empty_fail[OF assms(1,2)] assms(3) by simp_all
  have inst: "Config__instance wa = Some ?a" by (simp add: wa_eq)
  have obj: "deref wa ?a = Some \<lparr>config_dir = module_dir E, config_json_filename = f,
                 data = None, debug = None\<rparr>"
    by (simp add: wa_eq deref_def)
  have again: "\<forall>E' f. fst (Config_init E' f wa) = Inl UsageError \<and>
                 Config__instance (snd (Config_init E' f wa)) = Some ?a \<and>
                 deref (snd (Config_init E' f wa)) ?a = deref wa ?a"
    using inst by (simp add: Config_init_taken deref_def wa_eq nth_append)
  have get: "\<forall>E'. Config_instance E' wa = (Inr (Some ?a), wa)"
    using inst by (simp add: Config_instance_def)
  have item: "\<forall>E' items. cfg_item E' items wa =
                 (Inl (AttributeError ''data''), wa\<lparr>lookups := lookups wa @ [items]\<rparr>)"
    by (simp add: cfg_item_def Config_instance_def wa_eq deref_def)
  show ?thesis using r_eq inst obj again get item by blast
qed

theorem Config_failed_load_sticks_witness:
  "Config__instance fresh_world = None \<and>
   load_file empty_env (path_join (module_dir empty_env) ''config.json'') =
     Inl (FileError ''/app/src/config/config.json'') \<and>
   fst (Config_init empty_env ''config.json'' fresh_world) =
     Inl (FileError ''/app/src/config/config.json'') \<and>
   fst (Config_init events_env ''config.json'' (snd (Config_init empty_env ''config.json'' fresh_world))) =
     Inl UsageError \<and>
   fst (Config_instance events_env (snd (Config_init empty_env ''config.json'' fresh_world))) =
     Inr (Some 0) \<and>
   fst (cfg_item events_env [''data'', ''dataset_id'']
          (snd (Config_init empty_env ''config.json'' fresh_world))) =
     Inl (AttributeError ''data'')"
proof -
  have h1: "Config__instance fresh_world = None" by (simp add: fresh_world_def)
  have h2: "load_file empty_env (path_join (module_dir empty_env) ''config.json'') =
     Inl (FileError ''/app/src/config/config.json'')"
    by (simp add: empty_env_def path_join_def)
  show ?thesis
    using h1 h2 Config_failed_load_sticks [where w = fresh_world and E = empty_env and f = "''config.json''",
        OF h1 h2 surjective_pairing]
    by (simp add: fresh_world_def)
qed

section \<open>Properties of the warehouse client wrapper\<close>

lemma check_table_exists_eq:
  "check_table_exists R table_id s =
     (case R (calls s) (GetTable table_id) of
        Inr h \<Rightarrow> Inr True
      | Inl e \<Rightarrow> (if e = NotFound then Inr False else Inl e),
      s\<lparr>calls := calls s @ [GetTable table_id]\<rparr>)"
  by (simp add: check_table_exists_def client_call_def split: sum.splits)

lemma ensure_dataset_eq:
  "ensure_dataset V R d s =
     (case R (calls s) (GetDataset d) of
        Inr h \<Rightarrow> (Inr (), s\<lparr>calls := calls s @ [GetDataset d]\<rparr>)
      | Inl e \<Rightarrow>
          (if e = NotFound then
             (case Dataset_raises V d of
                Some e' \<Rightarrow> (Inl e', s\<lparr>calls := calls s @ [GetDataset d]\<rparr>)
              | None \<Rightarrow>
                  (case R (calls s @ [GetDataset d])
                          (CreateDataset \<lparr>dataset_ref = d, ds_location = Some ''US''\<rparr>) of
                     Inl e' \<Rightarrow> Inl e'
                   | Inr h \<Rightarrow> Inr (),
                   s\<lparr>calls := calls s @ [GetDataset d,
                        CreateDataset \<lparr>dataset_ref = d, ds_location = Some ''US''\<rparr>]\<rparr>))
           else (Inl e, s\<lparr>calls := calls s @ [GetDataset d]\<rparr>)))"
  by (simp add: ensure_dataset_def client_call_def Let_def split: sum.splits option.splits)




text \<open>
  Claim C4. \<^verbatim>\<open>check_table_exists\<close> makes one remote call, \<^verbatim>\<open>get_table\<close>: it returns
  \<open>True\<close> when the service finds the table, \<open>False\<close> when the service signals
  \<open>NotFound\<close>, and raises every other failure unchanged; so \<open>NotFound\<close> never leaves
  it. The only other handler of \<open>NotFound\<close>, around \<^verbatim>\<open>get_dataset\<close>, yields no boolean
  but (when the vendor's constructor accepts the dataset id) a \<^verbatim>\<open>create_dataset\<close> call,
  and a \<open>NotFound\<close> raised by that call is not caught.
\<close>

theorem check_table_exists_boundary:
  "(\<forall>h. R (calls s) (GetTable table_id) = Inr h \<longrightarrow>
        check_table_exists R table_id s = (Inr True, s\<lparr>calls := calls s @ [GetTable table_id]\<rparr>)) \<and>
   (R (calls s) (GetTable table_id) = Inl NotFound \<longrightarrow>
        check_table_exists R table_id s = (Inr False, s\<lparr>calls := calls s @ [GetTable table_id]\<rparr>)) \<and>
   (\<forall>e. R (calls s) (GetTable table_id) = Inl e \<longrightarrow> e \<noteq> NotFound \<longrightarrow>
        check_table_exists R table_id s = (Inl e, s\<lparr>calls := calls s @ [GetTable table_id]\<rparr>)) \<and>
   fst (check_table_exists R table_id s) \<noteq> Inl NotFound \<and>
   (\<forall>d. R (calls s) (GetDataset d) = Inl NotFound \<longrightarrow>
        Dataset_raises V d = None \<longrightarrow>
        R (calls s @ [GetDataset d]) (CreateDataset \<lparr>dataset_ref = d, ds_location = Some ''US''\<rparr>) =
          Inl NotFound \<longrightarrow>
        fst (ensure_dataset V R d s) = Inl NotFound)"
  by (simp add: check_table_exists_eq ensure_dataset_eq split: sum.splits)

theorem check_table_exists_boundary_witness:
  "empty_service (calls no_calls) (GetTable (JStr ''proj.ds1.events'')) = Inl NotFound \<and>
   check_table_exists empty_service (JStr ''proj.ds1.events'') no_calls =
     (Inr False, no_calls\<lparr>calls := [GetTable (JStr ''proj.ds1.events'')]\<rparr>) \<and>
   check_table_exists (\<lambda>h c. Inr 0) (JStr ''proj.ds1.events'') no_calls =
     (Inr True, no_calls\<lparr>calls := [GetTable (JStr ''proj.ds1.events'')]\<rparr>) \<and>
   RemoteError ''403'' \<noteq> NotFound \<and>
   check_table_exists (\<lambda>h c. Inl (RemoteError ''403'')) (JStr ''proj.ds1.events'') no_calls =
     (Inl (RemoteError ''403''), no_calls\<lparr>calls := [GetTable (JStr ''proj.ds1.events'')]\<rparr>)"
proof -
  have absent: "empty_service (calls no_calls) (GetTable (JStr ''proj.ds1.events'')) = Inl NotFound"
    by (simp add: empty_service_def)
  have nocalls: "calls no_calls = []"
    by (simp add: no_calls_def)
  show ?thesis
    using absent nocalls
      check_table_exists_boundary [where R = empty_service and s = no_calls
        and table_id = "JStr ''proj.ds1.events''"]
      check_table_exists_boundary [where R = "\<lambda>h c. Inr 0" and s = no_calls
        and table_id = "JStr ''proj.ds1.events''"]
      check_table_exists_boundary [where R = "\<lambda>h c. Inl (RemoteError ''403'')" and s = no_calls
        and table_id = "JStr ''proj.ds1.events''"]
    by simp
qed

text \<open>
  Claim C1. \<^verbatim>\<open>job_config\<close> returns the configuration with the given schema and
  \<open>WRITE_APPEND\<close> when the existence check returns true, and with \<open>WRITE_EMPTY\<close> when
  it returns false; an exception of the check propagates; a configuration it returns
  has one of these two dispositions.
\<close>

theorem job_config_selection:
  "(check_table_exists R table_id s = (Inr True, s') \<longrightarrow>
      job_config R schema table_id s =
        (Inr \<lparr>lj_schema = schema, lj_write_disposition = WRITE_APPEND\<rparr>,
         print ''La tabla ya existe'' s')) \<and>
   (check_table_exists R table_id s = (Inr False, s') \<longrightarrow>
      job_config R schema table_id s =
        (Inr \<lparr>lj_schema = schema, lj_write_disposition = WRITE_EMPTY\<rparr>,
         print ''La tabla no existe'' s')) \<and>
   (\<forall>e. check_table_exists R table_id s = (Inl e, s') \<longrightarrow>
      job_config R schema table_id s = (Inl e, s')) \<and>
   (\<forall>config s''. job_config R schema table_id s = (Inr config, s'') \<longrightarrow>
      lj_schema config = schema \<and>
      (lj_write_disposition config = WRITE_APPEND \<or> lj_write_disposition config = WRITE_EMPTY))"
  by (auto simp: job_config_def split: prod.splits sum.splits if_splits)

theorem job_config_selection_witness:
  "check_table_exists empty_service (JStr ''proj.ds1.events'') no_calls =
     (Inr False, no_calls\<lparr>calls := [GetTable (JStr ''proj.ds1.events'')]\<rparr>) \<and>
   job_config empty_service events_schema (JStr ''proj.ds1.events'') no_calls =
     (Inr \<lparr>lj_schema = events_schema, lj_write_disposition = WRITE_EMPTY\<rparr>,
      \<lparr>calls = [GetTable (JStr ''proj.ds1.events'')], stdout = [''La tabla no existe'']\<rparr>) \<and>
   check_table_exists (\<lambda>h c. Inr 0) (JStr ''proj.ds1.events'') no_calls =
     (Inr True, no_calls\<lparr>calls := [GetTable (JStr ''proj.ds1.events'')]\<rparr>) \<and>
   job_config (\<lambda>h c. Inr 0) events_schema (JStr ''proj.ds1.events'') no_calls =
     (Inr \<lparr>lj_schema = events_schema, lj_write_disposition = WRITE_APPEND\<rparr>,
      \<lparr>calls = [GetTable (JStr ''proj.ds1.events'')], stdout = [''La tabla ya existe'']\<rparr>)"
proof -
  have absent: "check_table_exists empty_service (JStr ''proj.ds1.events'') no_calls =
     (Inr False, no_calls\<lparr>calls := [GetTable (JStr ''proj.ds1.events'')]\<rparr>)"
    by (simp add: check_table_exists_def client_call_def empty_service_def no_calls_def)
  have present: "check_table_exists (\<lambda>h c. Inr 0) (JStr ''proj.ds1.events'') no_calls =
     (Inr True, no_calls\<lparr>calls := [GetTable (JStr ''proj.ds1.events'')]\<rparr>)"
    by (simp add: check_table_exists_def client_call_def no_calls_def)
  show ?thesis
    using absent present
      job_config_selection [where R = empty_service and s = no_calls and schema = events_schema
        and table_id = "JStr ''proj.ds1.events''"
        and s' = "no_calls\<lparr>calls := [GetTable (JStr ''proj.ds1.events'')]\<rparr>"]
      job_config_selection [where R = "\<lambda>h c. Inr 0" and s = no_calls and schema = events_schema
        and table_id = "JStr ''proj.ds1.events''"
        and s' = "no_calls\<lparr>calls := [GetTable (JStr ''proj.ds1.events'')]\<rparr>"]
    by (simp add: print_def no_calls_def)
qed

text \<open>
  Claim C9 as stated fails on the returned value: for a table id that is not fully
  qualified the vendor's constructor raises, and \<^verbatim>\<open>create_table\<close> raises with it
  instead of returning \<^verbatim>\<open>None\<close>.
\<close>

theorem create_table_rejects_unqualified_id:
  "create_table strict_vendor (JStr ''events'') events_schema no_calls =
     (Inl (ValueError ''events''), no_calls)"
  by code_simp

text \<open>
  Claim C9, amended. For every table id and schema \<^verbatim>\<open>create_table\<close> leaves the session
  as it was (no remote call is added and nothing is printed); it returns \<^verbatim>\<open>None\<close> when
  the vendor's \<^verbatim>\<open>Table\<close> constructor accepts the arguments, and raises the constructor's
  exception otherwise.
\<close>

theorem create_table_no_effect:
  "snd (create_table V table_id schema s) = s \<and>
   calls (snd (create_table V table_id schema s)) = calls s \<and>
   stdout (snd (create_table V table_id schema s)) = stdout s \<and>
   (Table_raises V table_id schema = None \<longrightarrow>
      fst (create_table V table_id schema s) = Inr ()) \<and>
   (\<forall>e. Table_raises V table_id schema = Some e \<longrightarrow>
      fst (create_table V table_id schema s) = Inl e)"
  by (simp add: create_table_def split: option.splits)

theorem create_table_no_effect_witness:
  "Table_raises strict_vendor (JStr ''proj.ds1.events'') events_schema = None \<and>
   create_table strict_vendor (JStr ''proj.ds1.events'') events_schema no_calls =
     (Inr (), no_calls) \<and>
   Table_raises strict_vendor (JStr ''events'') events_schema = Some (ValueError ''events'') \<and>
   fst (create_table strict_vendor (JStr ''events'') events_schema no_calls) =
     Inl (ValueError ''events'') \<and>
   calls (snd (create_table strict_vendor (JStr ''events'') events_schema no_calls)) = []"
proof -
  have accepted: "Table_raises strict_vendor (JStr ''proj.ds1.events'') events_schema = None"
    by code_simp
  have refused: "Table_raises strict_vendor (JStr ''events'') events_schema =
      Some (ValueError ''events'')"
    by code_simp
  have nocalls: "calls no_calls = []"
    by (simp add: no_calls_def)
  show ?thesis
    using accepted refused nocalls
      create_table_no_effect [where V = strict_vendor and s = no_calls
        and schema = events_schema and table_id = "JStr ''proj.ds1.events''"]
      create_table_no_effect [where V = strict_vendor and s = no_calls
        and schema = events_schema and table_id = "JStr ''events''"]
    by (simp add: prod_eq_iff)
qed




section \<open>Properties of the table descriptors\<close>

lemma lookups_Config_init: "lookups (snd (Config_init E f w)) = lookups w"
  by (simp add: Config_init_def Let_def split: sum.splits)

lemma lookups_Config_instance: "lookups (snd (Config_instance E w)) = lookups w"
  using lookups_Config_init[of E "''config.json''" w]
  by (auto simp: Config_instance_def split: prod.splits sum.splits)

lemma lookups_cfg_item: "lookups (snd (cfg_item E items w)) = lookups w @ [items]"
  using lookups_Config_instance[of E "w\<lparr>lookups := lookups w @ [items]\<rparr>"]
  by (auto simp: cfg_item_def Let_def split: prod.splits sum.splits option.splits)




lemma attr_loop_attrs:
  "attr_loop self columns = (r, self') \<Longrightarrow>
     map_of self' k = map_of self k \<or> map_of self' k = Some (JStr k)"
proof (induction columns arbitrary: self)
  case Nil
  then show ?case by simp
next
  case (Cons c cs)
  show ?case
  proof (cases rule: sum.exhaust[of "getitem c ''name''"])
    case (Inl e)
    with Cons.prems show ?thesis by simp
  next
    case (Inr v)
    show ?thesis
    proof (cases v)
      case (JStr n)
      with Inr Cons.prems have "attr_loop (setattr self n (JStr n)) cs = (r, self')" by simp
      from Cons.IH[OF this] show ?thesis
        by (auto simp: setattr_def update_conv')
    qed (use Inr Cons.prems in auto)
  qed
qed

lemma get_table_schema_init:
  "get_table_schema E (w, [(''table_name'', JStr name), (''table_id'', table_id),
                           (''schema'', schema), (''location'', location)]) =
     (if schema = JNull then
        (case cfg_item E [''data'', ''tables'', name, ''schema''] w of
           (Inl e, w1) \<Rightarrow>
             (Inl e, w1, [(''table_name'', JStr name), (''table_id'', table_id),
                          (''schema'', schema), (''location'', location)])
         | (Inr x, w1) \<Rightarrow>
             (Inr x, w1, [(''table_name'', JStr name), (''table_id'', table_id),
                          (''schema'', x), (''location'', location)]))
      else (Inr schema, w, [(''table_name'', JStr name), (''table_id'', table_id),
                            (''schema'', schema), (''location'', location)]))"
  by (simp add: get_table_schema_def cached_accessor_def method_shadowed_def getattr_def
        table_path_def setattr_def split: prod.splits sum.splits)


lemma attr_columns_init:
  assumes "attr_columns E (w, [(''table_name'', JStr name), (''table_id'', table_id),
                  (''schema'', schema), (''location'', location)]) = (r, w', self)"
  shows "lookups w' = lookups w @ (if schema = JNull then [[''data'', ''tables'', name, ''schema'']] else []) \<and>
         (\<forall>u. r = Inr u \<longrightarrow> (\<exists>s. s \<noteq> JNull \<and> map_of self ''schema'' = Some s)) \<and>
         (\<forall>k. k \<noteq> ''schema'' \<longrightarrow>
           map_of self k = map_of [(''table_name'', JStr name), (''table_id'', table_id),
                  (''schema'', schema), (''location'', location)] k \<or> map_of self k = Some (JStr k))"
proof -
  let ?self0 = "[(''table_name'', JStr name), (''table_id'', table_id),
                  (''schema'', schema), (''location'', location)]"
  obtain r1 w1 self1 where g: "get_table_schema E (w, ?self0) = (r1, w1, self1)"
    using prod_cases3 by blast
  have look: "lookups w1 = lookups w @ (if schema = JNull then [[''data'', ''tables'', name, ''schema'']] else [])"
    using g lookups_cfg_item[of E "[''data'', ''tables'', name, ''schema'']" w]
    by (auto simp: get_table_schema_init split: if_splits prod.splits sum.splits)
  have shape: "self1 = ?self0 \<or>
       (\<exists>x. r1 = Inr x \<and> self1 = [(''table_name'', JStr name), (''table_id'', table_id),
                  (''schema'', x), (''location'', location)])"
    using g by (auto simp: get_table_schema_init split: if_splits prod.splits sum.splits)
  have same: "map_of self1 k = map_of ?self0 k" if "k \<noteq> ''schema''" for k
    using shape that by (elim disjE exE conjE) simp_all
  have sch: "map_of self1 ''schema'' = Some x" if "r1 = Inr x" for x
    using g that by (auto simp: get_table_schema_init split: if_splits prod.splits sum.splits)
  have unshadowed: "\<not> method_shadowed ?self0 ''attr_columns''"
    by (simp add: method_shadowed_def)
  show ?thesis
  proof (cases r1)
    case (Inl e)
    then have "r = Inl e" "w' = w1" "self = self1"
      using assms g unshadowed by (simp_all add: attr_columns_def)
    then show ?thesis using look same by simp
  next
    case (Inr x)
    show ?thesis
    proof (cases rule: sum.exhaust[of "py_iter x"])
      case (Inl e)
      then have "r = Inl e" "w' = w1" "self = self1"
        using assms g unshadowed Inr by (simp_all add: attr_columns_def)
      then show ?thesis using look same by simp
    next
      case cols: (Inr columns)
      then have loop: "attr_loop self1 columns = (r, self)" and w': "w' = w1"
        using assms g unshadowed Inr by (auto simp: attr_columns_def split: prod.splits)
      have x: "x \<noteq> JNull" using cols by auto
      have "map_of self ''schema'' = Some x \<or> map_of self ''schema'' = Some (JStr ''schema'')"
        using attr_loop_attrs[OF loop, of "''schema''"] sch[OF Inr] by simp
      then have s: "\<exists>s. s \<noteq> JNull \<and> map_of self ''schema'' = Some s"
        using x by auto
      have "\<forall>k. k \<noteq> ''schema'' \<longrightarrow> map_of self k = map_of ?self0 k \<or> map_of self k = Some (JStr k)"
        using attr_loop_attrs[OF loop] same by metis
      then show ?thesis using look w' s by blast
    qed
  qed
qed

lemma Table_init_facts:
  assumes "Table_init E name table_id schema location w = (Inr self, w')"
  shows "lookups w' = lookups w @ (if schema = JNull then [[''data'', ''tables'', name, ''schema'']] else []) \<and>
         (\<exists>s. s \<noteq> JNull \<and> map_of self ''schema'' = Some s) \<and>
         (\<forall>k. k \<noteq> ''schema'' \<longrightarrow>
           map_of self k = map_of [(''table_name'', JStr name), (''table_id'', table_id),
                  (''schema'', schema), (''location'', location)] k \<or> map_of self k = Some (JStr k))"
proof -
  obtain u where "attr_columns E (w, [(''table_name'', JStr name), (''table_id'', table_id),
                  (''schema'', schema), (''location'', location)]) = (Inr u, w', self)"
    using assms by (auto simp: Table_init_def split: prod.splits sum.splits)
  from attr_columns_init[OF this] show ?thesis by blast
qed

lemma Table_init_attr:
  assumes "Table_init E name table_id schema location w = (Inr self, w')" and "k \<noteq> ''schema''"
  shows "map_of self k = map_of [(''table_name'', JStr name), (''table_id'', table_id),
                  (''schema'', schema), (''location'', location)] k \<or> map_of self k = Some (JStr k)"
  using Table_init_facts[OF assms(1)] assms(2) by blast

lemma get_dataset_id_never_resolves:
  assumes "Table_init E name table_id schema location w = (Inr self, w')"
  shows "(fst (get_dataset_id E (v, self)) = Inl (AttributeError ''dataset_id'') \<or>
          fst (get_dataset_id E (v, self)) = Inl TypeError \<or>
          fst (get_dataset_id E (v, self)) = Inr (JStr ''dataset_id'')) \<and>
         snd (get_dataset_id E (v, self)) = (v, self)"
proof -
  have "map_of self ''dataset_id'' = None \<or> map_of self ''dataset_id'' = Some (JStr ''dataset_id'')"
    using Table_init_attr[OF assms, of "''dataset_id''"] by simp
  then show ?thesis
    by (auto simp: get_dataset_id_def cached_accessor_def getattr_def)
qed




text \<open>
  Claim C2 fails on the dataset id. The constructor never creates the attribute
  \<open>dataset_id\<close>, so \<^verbatim>\<open>get_dataset_id\<close> raises \<^verbatim>\<open>AttributeError\<close> on the descriptor of
  \<open>events\<close>, although the configuration holds \<open>ds1\<close> under \<open>(data, dataset_id)\<close>
  and the accessor of the configuration-only class returns it.
\<close>

theorem get_dataset_id_raises:
  "Table_init events_env ''events'' JNull JNull JNull fresh_world =
     (Inr events_obj, loaded_world\<lparr>lookups := [[''data'', ''tables'', ''events'', ''schema'']]\<rparr>) \<and>
   cfg_item events_env [''data'', ''dataset_id''] loaded_world =
     (Inr (JStr ''ds1''), loaded_world\<lparr>lookups := [[''data'', ''dataset_id'']]\<rparr>) \<and>
   get_dataset_id events_env (loaded_world, events_obj) =
     (Inl (AttributeError ''dataset_id''), loaded_world, events_obj) \<and>
   get_dataset_id_cfg events_env (loaded_world, attrs events_table_cfg) =
     (Inr (JStr ''ds1''), loaded_world\<lparr>lookups := [[''data'', ''dataset_id'']]\<rparr>,
      attrs events_table_cfg)"
  by code_simp

lemma load_with_overrides_raises:
  "load_data_to_bigquery events_env strict_vendor empty_service ()
     (loaded_world, \<lparr>cls = WithOverrides, attrs = events_obj\<rparr>, no_calls) =
   (Inl (AttributeError ''dataset_id''), loaded_world,
    \<lparr>cls = WithOverrides, attrs = events_obj\<rparr>, no_calls)"
  by code_simp





lemma transform_typed:
  "\<forall>c\<in>set cols. \<exists>y. map_of df c = Some y \<and> td y = Inr y \<Longrightarrow>
     transform_date_time td df cols = (None, df)"
  by (induction cols) (auto simp: update_triv)

lemma transform_once:
  "\<forall>c\<in>set cols. \<exists>x y. map_of df c = Some x \<and> td x = Inr y \<and> td y = Inr y \<Longrightarrow>
     fst (transform_date_time td df cols) = None \<and>
     map fst (snd (transform_date_time td df cols)) = map fst df \<and>
     (\<forall>c. c \<notin> set cols \<longrightarrow> map_of (snd (transform_date_time td df cols)) c = map_of df c) \<and>
     (\<forall>c\<in>set cols. \<exists>x y. map_of df c = Some x \<and> td x = Inr y \<and> td y = Inr y \<and>
         map_of (snd (transform_date_time td df cols)) c = Some y)"
proof (induction cols arbitrary: df)
  case Nil
  then show ?case by simp
next
  case (Cons c cs)
  then obtain x y where x: "map_of df c = Some x" and y: "td x = Inr y" and yy: "td y = Inr y"
    by auto
  let ?df = "AList.update c y df"
  have pre: "\<forall>k\<in>set cs. \<exists>x y. map_of ?df k = Some x \<and> td x = Inr y \<and> td y = Inr y"
    using Cons.prems yy by (auto simp: update_conv')
  note IH = Cons.IH[OF pre]
  have step: "transform_date_time td df (c # cs) = transform_date_time td ?df cs"
    using x y by simp
  have keys: "map fst ?df = map fst df"
    using x by (auto simp: update_keys dest: map_of_SomeD) (metis fst_conv image_eqI map_of_SomeD)
  let ?out = "snd (transform_date_time td ?df cs)"
  have other: "map_of ?df k = map_of df k" if "k \<noteq> c" for k
    using that by (simp add: update_conv')
  have here: "map_of ?df c = Some y"
    by (simp add: update_conv')
  have c_out: "map_of ?out c = Some y"
  proof -
    consider (again) "c \<in> set cs" | (once) "c \<notin> set cs" by blast
    then show ?thesis
    proof cases
      case again
      with IH obtain x' y' where "map_of ?df c = Some x'" "td x' = Inr y'" "map_of ?out c = Some y'"
        by blast
      with here yy show ?thesis by simp
    next
      case once
      with IH here show ?thesis by simp
    qed
  qed
  have frame: "\<forall>k. k \<notin> set (c # cs) \<longrightarrow> map_of ?out k = map_of df k"
    using IH other by simp
  have conv: "\<forall>k\<in>set (c # cs). \<exists>x y. map_of df k = Some x \<and> td x = Inr y \<and> td y = Inr y \<and>
         map_of ?out k = Some y"
  proof
    fix k assume k: "k \<in> set (c # cs)"
    consider (hd) "k = c" | (tl) "k \<noteq> c" "k \<in> set cs" using k by auto
    then show "\<exists>x y. map_of df k = Some x \<and> td x = Inr y \<and> td y = Inr y \<and> map_of ?out k = Some y"
    proof cases
      case hd
      then show ?thesis using x y yy c_out by blast
    next
      case tl
      with IH obtain x' y' where "map_of ?df k = Some x'" "td x' = Inr y'" "td y' = Inr y'"
          "map_of ?out k = Some y'"
        by blast
      with other[OF tl(1)] show ?thesis by metis
    qed
  qed
  have ok: "fst (transform_date_time td ?df cs) = None"
    using IH by blast
  have names: "map fst ?out = map fst df"
    using IH keys by simp
  show ?case unfolding step
    by (intro conjI) (rule ok, rule names, rule frame, rule conv)
qed

text \<open>
  Claim C8. When every named column is present and \<^verbatim>\<open>pd.to_datetime\<close> converts it to
  a column that it leaves unchanged (a date/time-typed column), \<^verbatim>\<open>transform_date_time\<close>
  succeeds, a second application to its result changes nothing, the columns keep their
  names and order, and every column that is not named is unchanged.
\<close>

theorem transform_date_time_idempotent:
  assumes "\<forall>c\<in>set date_columns. \<exists>x y. map_of df c = Some x \<and> to_datetime x = Inr y \<and> to_datetime y = Inr y"
  shows "fst (transform_date_time to_datetime df date_columns) = None \<and>
         transform_date_time to_datetime (snd (transform_date_time to_datetime df date_columns)) date_columns =
           transform_date_time to_datetime df date_columns \<and>
         map fst (snd (transform_date_time to_datetime df date_columns)) = map fst df \<and>
         (\<forall>c. c \<notin> set date_columns \<longrightarrow>
              map_of (snd (transform_date_time to_datetime df date_columns)) c = map_of df c)"
proof -
  let ?out = "snd (transform_date_time to_datetime df date_columns)"
  note once = transform_once[OF assms]
  have "\<forall>c\<in>set date_columns. \<exists>y. map_of ?out c = Some y \<and> to_datetime y = Inr y"
    using once by blast
  then have "transform_date_time to_datetime ?out date_columns = (None, ?out)"
    by (rule transform_typed)
  moreover have "transform_date_time to_datetime df date_columns = (None, ?out)"
    using once by (simp add: prod_eq_iff)
  ultimately show ?thesis using once by simp
qed

theorem transform_date_time_idempotent_witness:
  "map_of toy_frame ''A'' = Some [Text ''1970-01-02'', Text ''1970-01-01''] \<and>
   toy_to_datetime [Text ''1970-01-02'', Text ''1970-01-01''] = Inr [Timestamp 86400, Timestamp 0] \<and>
   toy_to_datetime [Timestamp 86400, Timestamp 0] = Inr [Timestamp 86400, Timestamp 0] \<and>
   transform_date_time toy_to_datetime toy_frame [''A''] =
     (None, [(''A'', [Timestamp 86400, Timestamp 0]), (''B'', [Text ''x'', Text ''y''])]) \<and>
   transform_date_time toy_to_datetime
       [(''A'', [Timestamp 86400, Timestamp 0]), (''B'', [Text ''x'', Text ''y''])] [''A''] =
     (None, [(''A'', [Timestamp 86400, Timestamp 0]), (''B'', [Text ''x'', Text ''y''])]) \<and>
   map_of (snd (transform_date_time toy_to_datetime toy_frame [''A''])) ''B'' =
     Some [Text ''x'', Text ''y'']"
proof -
  have parse: "\<forall>c\<in>set [''A'']. \<exists>x y. map_of toy_frame c = Some x \<and> toy_to_datetime x = Inr y \<and>
        toy_to_datetime y = Inr y"
    by (simp add: toy_frame_def)
  have once: "transform_date_time toy_to_datetime toy_frame [''A''] =
     (None, [(''A'', [Timestamp 86400, Timestamp 0]), (''B'', [Text ''x'', Text ''y''])])"
    by code_simp
  have b: "map_of toy_frame ''B'' = Some [Text ''x'', Text ''y'']" "''B'' \<notin> set [''A'']"
    by (simp_all add: toy_frame_def)
  have a: "map_of toy_frame ''A'' = Some [Text ''1970-01-02'', Text ''1970-01-01'']"
      "toy_to_datetime [Text ''1970-01-02'', Text ''1970-01-01''] = Inr [Timestamp 86400, Timestamp 0]"
      "toy_to_datetime [Timestamp 86400, Timestamp 0] = Inr [Timestamp 86400, Timestamp 0]"
    by (simp_all add: toy_frame_def)
  show ?thesis
    using a once b transform_date_time_idempotent [OF parse]
    by simp
qed

end
